theory Spec2Isabelle
  imports Main "HOL-Library.Word"
begin

section \<open>Documents and JavaScript values\<close>

text \<open>
  A Firestore document's \<^verbatim>\<open>data()\<close> is a JavaScript object. Its fields are
  untyped at run time: the interfaces \<^verbatim>\<open>User\<close> and \<^verbatim>\<open>Tweet\<close> of
  \<^verbatim>\<open>index.ts\<close> are compile-time casts only (\<^verbatim>\<open>as User\<close>, \<^verbatim>\<open>as Tweet[]\<close>).
  A document is therefore an association list from field names to scalar values (the
  schema's fields are strings and integers); a field that is absent reads as
  \<^verbatim>\<open>undefined\<close>, which is \<open>None\<close>.

  A number is an integer from \<^verbatim>\<open>-2^53\<close> up to, and not including, \<^verbatim>\<open>2^53\<close>, the
  range in which every integer is a JavaScript number exactly; it is held as a signed
  word of 54 bits and read with \<open>sint\<close>.
\<close>

datatype fsvalue = FString string | FNumber "54 word" | FBool bool | FNull

type_synonym document = "(string \<times> fsvalue) list"

definition field :: "document \<Rightarrow> string \<Rightarrow> fsvalue option" where
  "field d k = map_of d k"

text \<open>
  A template literal \<^verbatim>\<open>`users/${x}`\<close> converts \<^verbatim>\<open>x\<close> with JavaScript's
  ToString: a string is itself, and an integer of the range above is written in decimal.
\<close>

definition digit :: "nat \<Rightarrow> char" where
  "digit n = ''0123456789'' ! n"

function show_digits :: "int \<Rightarrow> string" where
  "show_digits n =
     (if n < 10 then [digit (nat n)] else show_digits (n div 10) @ [digit (nat (n mod 10))])"
  by pat_completeness auto
termination
  by (relation "measure nat") auto

definition show_int :: "int \<Rightarrow> string" where
  "show_int i = (if i < 0 then CHR ''-'' # show_digits (- i) else show_digits i)"

fun to_string :: "fsvalue option \<Rightarrow> string" where
  "to_string None = ''undefined''"
| "to_string (Some (FString s)) = s"
| "to_string (Some (FNumber n)) = show_int (sint n)"
| "to_string (Some (FBool b)) = (if b then ''true'' else ''false'')"
| "to_string (Some FNull) = ''null''"

section \<open>The document store client\<close>

text \<open>
  The resolvers call the document store client (\<^verbatim>\<open>firebase-admin\<close>), an external
  collaborator whose code is not part of \<^verbatim>\<open>index.ts\<close>. Its boundary is the one the
  specification gives: a point lookup by document path, a filtered scan of a collection
  with the operator \<^verbatim>\<open>==\<close>, and an unfiltered scan of a collection. The client checks
  the arguments of a call before it sends any request to the store.
\<close>

text \<open>
  Modelled from the spec: the three calls of the store client's boundary,
  \<^verbatim>\<open>get(key)\<close>, \<^verbatim>\<open>query(collection, field, "==", value)\<close> and
  \<^verbatim>\<open>scanAll(collection)\<close>. The value of a query may be \<^verbatim>\<open>undefined\<close>.
\<close>

datatype store_call =
    Get string
  | Query string string "fsvalue option"
  | ScanAll string

text \<open>
  Modelled from the spec: the document store. \<open>docs\<close> holds the documents under their
  full paths (\<^verbatim>\<open>users/u1\<close>, \<^verbatim>\<open>tweets/t1\<close>), in the order in which a scan yields
  them. \<open>fault\<close> says which requests the backend fails (network, permission, timeout)
  and with what error. \<open>calls\<close> is the trace of the requests sent to the store so far.
\<close>

record store =
  docs :: "(string \<times> document) list"
  fault :: "store_call \<Rightarrow> string option"
  calls :: "store_call list"

text \<open>
  Modelled from the spec: the snapshots the client answers with. A snapshot carries the
  document's path and its data; the data of a document that does not exist is
  \<^verbatim>\<open>undefined\<close>.
\<close>

type_synonym document_snapshot = "string \<times> document option"

type_synonym query_document_snapshot = "string \<times> document"

definition snapshot_data :: "document_snapshot \<Rightarrow> document option" where
  "snapshot_data snap = snd snap"

definition doc_data :: "query_document_snapshot \<Rightarrow> document" where
  "doc_data snap = snd snap"

text \<open>
  Modelled from the spec: membership of a named collection. A path lies in collection
  \<open>c\<close> when it is \<open>c\<close>, a slash and a non-empty document id without a slash.
\<close>

definition in_collection :: "string \<Rightarrow> string \<Rightarrow> bool" where
  "in_collection c p =
     (take (Suc (length c)) p = c @ ''/'' \<and>
      (let k = drop (Suc (length c)) p in k \<noteq> [] \<and> CHR ''/'' \<notin> set k))"

definition collection :: "string \<Rightarrow> (string \<times> document) list \<Rightarrow> query_document_snapshot list" where
  "collection c ds = filter (\<lambda>snap. in_collection c (fst snap)) ds"

text \<open>
  Modelled from the spec: the filter \<^verbatim>\<open>where(f, '==', v)\<close> of a filtered scan. A
  document matches when it has the field and the field's value equals \<open>v\<close>; no stored
  value equals \<^verbatim>\<open>undefined\<close>.
\<close>

definition matches :: "string \<Rightarrow> fsvalue option \<Rightarrow> query_document_snapshot \<Rightarrow> bool" where
  "matches f v snap = (v \<noteq> None \<and> field (snd snap) f = v)"

text \<open>
  Modelled from the spec: the input validation of a document path, which the client does
  in \<^verbatim>\<open>firestore().doc(path)\<close> before any request. The path is a non-empty string
  without \<^verbatim>\<open>//\<close>; it is split at its slashes, a leading or trailing slash giving an
  empty segment that is dropped; and it names a document when it has an even, positive
  number of segments (collection and id, alternating). \<open>validate_document_path\<close> is
  the error thrown, or \<open>None\<close> for a path that passes. \<open>document_key\<close> is the path
  of the document that a path which passes refers to.
\<close>

fun has_double_slash :: "string \<Rightarrow> bool" where
  "has_double_slash (a # b # cs) =
     ((a = CHR ''/'' \<and> b = CHR ''/'') \<or> has_double_slash (b # cs))"
| "has_double_slash cs = False"

fun split_slash :: "string \<Rightarrow> string list" where
  "split_slash [] = [[]]"
| "split_slash (c # cs) =
     (if c = CHR ''/'' then [] # split_slash cs
      else (case split_slash cs of [] \<Rightarrow> [[c]] | s # ss \<Rightarrow> (c # s) # ss))"

definition segments :: "string \<Rightarrow> string list" where
  "segments path = filter (\<lambda>segment. segment \<noteq> []) (split_slash path)"

fun join_slash :: "string list \<Rightarrow> string" where
  "join_slash [] = []"
| "join_slash [s] = s"
| "join_slash (s # t # ss) = s @ ''/'' @ join_slash (t # ss)"

definition document_key :: "string \<Rightarrow> string" where
  "document_key path = join_slash (segments path)"

definition validate_document_path :: "string \<Rightarrow> string option" where
  "validate_document_path path =
     (if path = [] then Some ''Path must be a non-empty string.''
      else if has_double_slash path then Some ''Paths must not contain //.''
      else if segments path = [] \<or> odd (length (segments path))
        then Some ''Argument documentPath must point to a document.''
      else None)"

text \<open>
  Modelled from the spec: the input validation of a call. A lookup is refused when its
  path is not a document path, a filtered scan when its value is \<^verbatim>\<open>undefined\<close>.
  \<open>refused\<close> is the error thrown, or \<open>None\<close> for a call that is sent.
\<close>

fun refused :: "store_call \<Rightarrow> string option" where
  "refused (Get path) = validate_document_path path"
| "refused (Query c f None) = Some ''Cannot use undefined as a Firestore value.''"
| "refused (Query c f (Some v)) = None"
| "refused (ScanAll c) = None"

text \<open>
  Modelled from the spec: one call of the store client. A refused call throws its error
  and sends nothing. Any other call is sent and recorded in the trace; the backend fails
  it with an error, or answers. No call changes the documents.
\<close>

definition attempt :: "store_call \<Rightarrow> 'a \<Rightarrow> store \<Rightarrow> (string + 'a) \<times> store" where
  "attempt c answer st =
     (case refused c of
        Some invalid \<Rightarrow> (Inl invalid, st)
      | None \<Rightarrow>
          (case fault st c of Some e \<Rightarrow> Inl e | None \<Rightarrow> Inr answer,
           st\<lparr>calls := calls st @ [c]\<rparr>))"

text \<open>
  Modelled from the spec: \<^verbatim>\<open>get(key)\<close>, the point lookup
  \<^verbatim>\<open>firestore().doc(path).get()\<close>, which answers with the document or its absence.
\<close>

definition store_get :: "string \<Rightarrow> store \<Rightarrow> (string + document_snapshot) \<times> store" where
  "store_get path st =
     attempt (Get path) (document_key path, map_of (docs st) (document_key path)) st"

text \<open>
  Modelled from the spec: \<^verbatim>\<open>query(collection, field, "==", value)\<close>, the filtered scan
  \<^verbatim>\<open>firestore().collection(c).where(f, '==', v).get()\<close>.
\<close>

definition store_query ::
  "string \<Rightarrow> string \<Rightarrow> fsvalue option \<Rightarrow> store \<Rightarrow> (string + query_document_snapshot list) \<times> store" where
  "store_query c f v st = attempt (Query c f v) (filter (matches f v) (collection c (docs st))) st"

text \<open>
  Modelled from the spec: \<^verbatim>\<open>scanAll(collection)\<close>, the unfiltered scan
  \<^verbatim>\<open>firestore().collection(c).get()\<close>.
\<close>

definition store_scanAll :: "string \<Rightarrow> store \<Rightarrow> (string + query_document_snapshot list) \<times> store" where
  "store_scanAll c st = attempt (ScanAll c) (collection c (docs st)) st"

section \<open>The resolvers of \<^verbatim>\<open>index.ts\<close>\<close>

text \<open>
  What a resolver can throw: the store client's error as it is, or an Apollo error object.
  \<^verbatim>\<open>new ApolloError(error)\<close> carries the caught error.
\<close>

datatype apollo_error = ApolloError string | ValidationError string

datatype thrown = StoreError string | Apollo apollo_error

text \<open>
  \<^verbatim>\<open>Query.user\<close> returns \<^verbatim>\<open>user || new ValidationError('User ID not found')\<close>: the
  value returned is a user object or an error object. \<^verbatim>\<open>user\<close> is an object or
  \<^verbatim>\<open>undefined\<close>, and every object is truthy, so the right operand is taken exactly
  when the data is \<^verbatim>\<open>undefined\<close>.
\<close>

datatype user_or_error = UserValue document | ErrorValue apollo_error

text \<open>
  Each resolver awaits one call of the store client. Three of them run it inside
  \<^verbatim>\<open>try { ... } catch (error) { throw new ApolloError(error) }\<close>;
  \<^verbatim>\<open>Query.tweets\<close> has no \<^verbatim>\<open>try\<close>. A resolver returns what it returns or
  throws (\<open>Inr\<close> or \<open>Inl\<close>), and the store as the call left it.
\<close>

definition User_tweets :: "document \<Rightarrow> store \<Rightarrow> (thrown + document list) \<times> store" where
  "User_tweets user st =
     (case store_query ''tweets'' ''userId'' (field user ''id'') st of
        (Inl error, st') \<Rightarrow> (Inl (Apollo (ApolloError error)), st')
      | (Inr userTweets, st') \<Rightarrow> (Inr (map doc_data userTweets), st'))"

definition Tweets_user :: "document \<Rightarrow> store \<Rightarrow> (thrown + document option) \<times> store" where
  "Tweets_user tweet st =
     (case store_get (''users/'' @ to_string (field tweet ''userId'')) st of
        (Inl error, st') \<Rightarrow> (Inl (Apollo (ApolloError error)), st')
      | (Inr tweetAuthor, st') \<Rightarrow> (Inr (snapshot_data tweetAuthor), st'))"

definition Query_tweets :: "store \<Rightarrow> (thrown + document list) \<times> store" where
  "Query_tweets st =
     (case store_scanAll ''tweets'' st of
        (Inl error, st') \<Rightarrow> (Inl (StoreError error), st')
      | (Inr tweets, st') \<Rightarrow> (Inr (map doc_data tweets), st'))"

definition Query_user :: "string \<Rightarrow> store \<Rightarrow> (thrown + user_or_error) \<times> store" where
  "Query_user args_id st =
     (case store_get (''users/'' @ args_id) st of
        (Inl error, st') \<Rightarrow> (Inl (Apollo (ApolloError error)), st')
      | (Inr userDoc, st') \<Rightarrow>
          (Inr (case snapshot_data userDoc of
                  None \<Rightarrow> ErrorValue (ValidationError ''User ID not found'')
                | Some user \<Rightarrow> UserValue user), st'))"

section \<open>The scenario of the specification\<close>

definition u1 :: document where
  "u1 = [(''id'', FString ''u1''), (''name'', FString ''Ada''),
         (''screenName'', FString ''ada''), (''statusesCount'', FNumber 2)]"

definition t1 :: document where
  "t1 = [(''id'', FString ''t1''), (''text'', FString ''first''),
         (''userId'', FString ''u1''), (''likes'', FNumber 3)]"

definition t2 :: document where
  "t2 = [(''id'', FString ''t2''), (''text'', FString ''second''),
         (''userId'', FString ''u1''), (''likes'', FNumber 0)]"

definition t3 :: document where
  "t3 = [(''id'', FString ''t3''), (''text'', FString ''third''),
         (''userId'', FString ''u2''), (''likes'', FNumber 1)]"

definition healthy :: "store_call \<Rightarrow> string option" where
  "healthy c = None"

definition scenario :: store where
  "scenario = \<lparr>docs = [(''users/u1'', u1), (''tweets/t1'', t1), (''tweets/t2'', t2),
                        (''tweets/t3'', t3)],
               fault = healthy, calls = []\<rparr>"

text \<open>The tweet documents of the store: the data of the collection \<^verbatim>\<open>tweets\<close>.\<close>

definition tweets_of :: "store \<Rightarrow> document list" where
  "tweets_of st = map doc_data (collection ''tweets'' (docs st))"

text \<open>
  A well-formed document id is one path segment: it is not empty and has no slash.
\<close>

definition well_formed_id :: "string \<Rightarrow> bool" where
  "well_formed_id k = (k \<noteq> [] \<and> CHR ''/'' \<notin> set k)"

text \<open>A backend that fails every request.\<close>

definition unavailable :: "store_call \<Rightarrow> string option" where
  "unavailable c = Some ''UNAVAILABLE''"

text \<open>A store with a user and no tweet, and the scenario's store with its backend down.\<close>

definition no_tweets :: store where
  "no_tweets = \<lparr>docs = [(''users/u1'', u1)], fault = healthy, calls = []\<rparr>"

definition down :: store where
  "down = scenario\<lparr>fault := unavailable\<rparr>"

text \<open>
  A tweet whose \<^verbatim>\<open>userId\<close> is the empty string, and the scenario's store holding it.
\<close>

definition t4 :: document where
  "t4 = [(''id'', FString ''t4''), (''text'', FString ''fourth''),
         (''userId'', FString ''''), (''likes'', FNumber 0)]"

definition dangling :: store where
  "dangling = scenario\<lparr>docs := docs scenario @ [(''tweets/t4'', t4)]\<rparr>"

section \<open>Document paths\<close>

lemma split_slash_no_slash: "CHR ''/'' \<notin> set s \<Longrightarrow> split_slash s = [s]"
  by (induction s) auto

lemma split_slash_append:
  "CHR ''/'' \<notin> set s \<Longrightarrow> split_slash (s @ CHR ''/'' # r) = s # split_slash r"
  by (induction s) auto

lemma no_slash_no_double: "CHR ''/'' \<notin> set s \<Longrightarrow> \<not> has_double_slash s"
  by (induction s rule: has_double_slash.induct) auto

lemma segments_users:
  assumes "well_formed_id k"
  shows "segments (''users/'' @ k) = [''users'', k]"
proof -
  have "split_slash (''users'' @ CHR ''/'' # k) = ''users'' # split_slash k"
    by (rule split_slash_append) simp
  then show ?thesis
    using assms by (simp add: segments_def well_formed_id_def split_slash_no_slash)
qed

lemma no_double_users:
  assumes "well_formed_id k"
  shows "\<not> has_double_slash (''users/'' @ k)"
proof -
  obtain a r where k: "k = a # r" "a \<noteq> CHR ''/''" "CHR ''/'' \<notin> set r"
    using assms by (cases k) (auto simp: well_formed_id_def)
  have "\<not> has_double_slash (a # r)"
    using k by (intro no_slash_no_double) simp
  then show ?thesis
    using k by simp
qed

text \<open>
  For a well-formed id \<open>k\<close> the path \<^verbatim>\<open>users/k\<close> passes the client's validation and
  refers to the document stored under \<^verbatim>\<open>users/k\<close>.
\<close>

lemma well_formed_id_path:
  assumes "well_formed_id k"
  shows "validate_document_path (''users/'' @ k) = None"
    and "document_key (''users/'' @ k) = ''users/'' @ k"
  using segments_users [OF assms] no_double_users [OF assms]
  by (simp_all add: validate_document_path_def document_key_def)

section \<open>The store client's calls\<close>

lemma attempt_refused:
  "refused c = Some e \<Longrightarrow> attempt c a st = (Inl e, st)"
  by (simp add: attempt_def)

lemma attempt_ok:
  "refused c = None \<Longrightarrow> fault st c = None \<Longrightarrow>
   attempt c a st = (Inr a, st\<lparr>calls := calls st @ [c]\<rparr>)"
  by (simp add: attempt_def)

lemma attempt_fail:
  "refused c = None \<Longrightarrow> fault st c = Some e \<Longrightarrow>
   attempt c a st = (Inl e, st\<lparr>calls := calls st @ [c]\<rparr>)"
  by (simp add: attempt_def)

section \<open>\<^verbatim>\<open>User.tweets\<close>\<close>

lemma User_tweets_ok:
  "field user ''id'' = Some u \<Longrightarrow> fault st (Query ''tweets'' ''userId'' (Some u)) = None \<Longrightarrow>
   User_tweets user st =
     (Inr (map doc_data
            (filter (matches ''userId'' (Some u)) (collection ''tweets'' (docs st)))),
      st\<lparr>calls := calls st @ [Query ''tweets'' ''userId'' (Some u)]\<rparr>)"
  by (simp add: User_tweets_def store_query_def attempt_ok)

text \<open>
  Claim C1. For every store and every parent user whose \<^verbatim>\<open>id\<close> is \<open>u\<close>, when the
  store answers the query, \<^verbatim>\<open>User.tweets\<close> returns a list whose elements are exactly
  the tweet documents of the store with \<^verbatim>\<open>userId == u\<close>, no more and no fewer,
  whatever their order; the list is empty exactly when no tweet matches, and that is a
  returned value, not an error.
\<close>

theorem User_tweets_exact:
  assumes "field user ''id'' = Some u"
    and "fault st (Query ''tweets'' ''userId'' (Some u)) = None"
  shows "\<exists>ts. fst (User_tweets user st) = Inr ts
           \<and> set ts = {t \<in> set (tweets_of st). field t ''userId'' = Some u}
           \<and> (ts = [] \<longleftrightarrow> \<not> (\<exists>t \<in> set (tweets_of st). field t ''userId'' = Some u))"
proof -
  let ?ts = "map doc_data (filter (matches ''userId'' (Some u)) (collection ''tweets'' (docs st)))"
  have r: "fst (User_tweets user st) = Inr ?ts"
    using assms by (simp add: User_tweets_ok)
  have s: "set ?ts = {t \<in> set (tweets_of st). field t ''userId'' = Some u}"
    by (auto simp: tweets_of_def matches_def doc_data_def)
  have e: "?ts = [] \<longleftrightarrow> \<not> (\<exists>t \<in> set (tweets_of st). field t ''userId'' = Some u)"
  proof -
    have "?ts = [] \<longleftrightarrow> set ?ts = {}"
      by (simp only: set_empty)
    also have "\<dots> \<longleftrightarrow> \<not> (\<exists>t \<in> set (tweets_of st). field t ''userId'' = Some u)"
      unfolding s by blast
    finally show ?thesis .
  qed
  from r s e show ?thesis by blast
qed

theorem User_tweets_exact_witness:
  "field u1 ''id'' = Some (FString ''u1'')
   \<and> fault scenario (Query ''tweets'' ''userId'' (Some (FString ''u1''))) = None
   \<and> tweets_of scenario = [t1, t2, t3]
   \<and> (\<exists>ts. fst (User_tweets u1 scenario) = Inr ts
           \<and> set ts = {t \<in> set (tweets_of scenario). field t ''userId'' = Some (FString ''u1'')}
           \<and> (ts = [] \<longleftrightarrow>
                \<not> (\<exists>t \<in> set (tweets_of scenario). field t ''userId'' = Some (FString ''u1''))))"
proof -
  have h1: "field u1 ''id'' = Some (FString ''u1'')"
    by (simp add: field_def u1_def)
  have h2: "fault scenario (Query ''tweets'' ''userId'' (Some (FString ''u1''))) = None"
    by (simp add: scenario_def healthy_def)
  have h3: "tweets_of scenario = [t1, t2, t3]"
    by (simp add: tweets_of_def scenario_def collection_def in_collection_def doc_data_def)
  from User_tweets_exact [OF h1 h2] h1 h2 h3 show ?thesis by blast
qed

section \<open>\<^verbatim>\<open>Tweets.user\<close>\<close>

lemma Tweets_user_refused:
  "validate_document_path (''users/'' @ to_string (field tweet ''userId'')) = Some e \<Longrightarrow>
   Tweets_user tweet st = (Inl (Apollo (ApolloError e)), st)"
  by (simp add: Tweets_user_def store_get_def attempt_refused)

lemma Tweets_user_ok:
  "validate_document_path (''users/'' @ to_string (field tweet ''userId'')) = None \<Longrightarrow>
   fault st (Get (''users/'' @ to_string (field tweet ''userId''))) = None \<Longrightarrow>
   Tweets_user tweet st =
     (Inr (map_of (docs st) (document_key (''users/'' @ to_string (field tweet ''userId'')))),
      st\<lparr>calls := calls st @ [Get (''users/'' @ to_string (field tweet ''userId''))]\<rparr>)"
  by (simp add: Tweets_user_def store_get_def attempt_ok snapshot_data_def)

lemma Tweets_user_fail:
  "validate_document_path (''users/'' @ to_string (field tweet ''userId'')) = None \<Longrightarrow>
   fault st (Get (''users/'' @ to_string (field tweet ''userId''))) = Some e \<Longrightarrow>
   Tweets_user tweet st =
     (Inl (Apollo (ApolloError e)),
      st\<lparr>calls := calls st @ [Get (''users/'' @ to_string (field tweet ''userId''))]\<rparr>)"
  by (simp add: Tweets_user_def store_get_def attempt_fail)

text \<open>
  Claim C3, as the specification states it: for every tweet whose \<^verbatim>\<open>userId\<close> matches
  no user document, \<^verbatim>\<open>Tweets.user\<close> returns a not-found outcome that is distinct
  from a store failure. It fails for the tweet \<open>t4\<close>, whose \<^verbatim>\<open>userId\<close> is the empty
  string: no user document is stored under \<^verbatim>\<open>users/\<close>, the client refuses that path
  before any request, and the resolver throws the refusal wrapped in an
  \<^verbatim>\<open>ApolloError\<close>, the very form in which it throws a failure of the store.
\<close>

theorem Tweets_user_empty_userId_counterexample:
  "tweets_of dangling = [t1, t2, t3, t4]
   \<and> field t4 ''userId'' = Some (FString '''')
   \<and> map_of (docs dangling) ''users/'' = None
   \<and> Tweets_user t4 dangling =
       (Inl (Apollo (ApolloError ''Argument documentPath must point to a document.'')), dangling)
   \<and> fst (Tweets_user t4 dangling) \<noteq> Inr None
   \<and> fst (Tweets_user t1 (dangling\<lparr>fault := unavailable\<rparr>)) =
       Inl (Apollo (ApolloError ''UNAVAILABLE''))"
  by (simp add: Tweets_user_def store_get_def attempt_def validate_document_path_def
      segments_def document_key_def field_def t1_def t4_def dangling_def scenario_def
      unavailable_def tweets_of_def collection_def in_collection_def doc_data_def)

text \<open>
  Claim C3, amended. For every tweet whose \<^verbatim>\<open>userId\<close> is a well-formed document id
  \<open>k\<close>, when the store answers the lookup of \<^verbatim>\<open>users/k\<close>: if no user document is
  stored under that key, \<^verbatim>\<open>Tweets.user\<close> returns the not-found outcome (the value
  \<^verbatim>\<open>undefined\<close>, which is no record at all); if the document exists, it returns that
  document; and in neither case does it throw, so the not-found outcome is not a store
  failure.
\<close>

theorem Tweets_user_not_found:
  assumes "field tweet ''userId'' = Some (FString k)"
    and "well_formed_id k"
    and "fault st (Get (''users/'' @ k)) = None"
  shows "(map_of (docs st) (''users/'' @ k) = None \<longrightarrow>
            fst (Tweets_user tweet st) = Inr None
            \<and> (\<forall>d. fst (Tweets_user tweet st) \<noteq> Inr (Some d)))
         \<and> (\<forall>d. map_of (docs st) (''users/'' @ k) = Some d \<longrightarrow>
              fst (Tweets_user tweet st) = Inr (Some d))
         \<and> (\<forall>x. fst (Tweets_user tweet st) \<noteq> Inl x)"
  using assms well_formed_id_path [of k] by (simp add: Tweets_user_ok)

theorem Tweets_user_not_found_witness:
  "field t3 ''userId'' = Some (FString ''u2'') \<and> well_formed_id ''u2''
   \<and> fault scenario (Get (''users/'' @ ''u2'')) = None
   \<and> map_of (docs scenario) (''users/'' @ ''u2'') = None
   \<and> fst (Tweets_user t3 scenario) = Inr None
   \<and> (\<forall>d. fst (Tweets_user t3 scenario) \<noteq> Inr (Some d))
   \<and> (\<forall>x. fst (Tweets_user t3 scenario) \<noteq> Inl x)
   \<and> field t1 ''userId'' = Some (FString ''u1'') \<and> well_formed_id ''u1''
   \<and> fault scenario (Get (''users/'' @ ''u1'')) = None
   \<and> map_of (docs scenario) (''users/'' @ ''u1'') = Some u1
   \<and> fst (Tweets_user t1 scenario) = Inr (Some u1)"
proof -
  have a1: "field t3 ''userId'' = Some (FString ''u2'')"
    by (simp add: field_def t3_def)
  have a2: "well_formed_id ''u2''"
    by (simp add: well_formed_id_def)
  have a3: "fault scenario (Get (''users/'' @ ''u2'')) = None"
    by (simp add: scenario_def healthy_def)
  have a4: "map_of (docs scenario) (''users/'' @ ''u2'') = None"
    by (simp add: scenario_def)
  have b1: "field t1 ''userId'' = Some (FString ''u1'')"
    by (simp add: field_def t1_def)
  have b2: "well_formed_id ''u1''"
    by (simp add: well_formed_id_def)
  have b3: "fault scenario (Get (''users/'' @ ''u1'')) = None"
    by (simp add: scenario_def healthy_def)
  have b4: "map_of (docs scenario) (''users/'' @ ''u1'') = Some u1"
    by (simp add: scenario_def)
  from Tweets_user_not_found [OF a1 a2 a3] Tweets_user_not_found [OF b1 b2 b3]
    a1 a2 a3 a4 b1 b2 b3 b4
  show ?thesis by blast
qed



section \<open>\<^verbatim>\<open>Query.user\<close>\<close>

lemma Query_user_refused:
  "validate_document_path (''users/'' @ i) = Some e \<Longrightarrow>
   Query_user i st = (Inl (Apollo (ApolloError e)), st)"
  by (simp add: Query_user_def store_get_def attempt_refused)

lemma Query_user_ok:
  "validate_document_path (''users/'' @ i) = None \<Longrightarrow>
   fault st (Get (''users/'' @ i)) = None \<Longrightarrow>
   Query_user i st =
     (Inr (case map_of (docs st) (document_key (''users/'' @ i)) of
             None \<Rightarrow> ErrorValue (ValidationError ''User ID not found'')
           | Some user \<Rightarrow> UserValue user),
      st\<lparr>calls := calls st @ [Get (''users/'' @ i)]\<rparr>)"
  by (simp add: Query_user_def store_get_def attempt_ok snapshot_data_def)

lemma Query_user_fail:
  "validate_document_path (''users/'' @ i) = None \<Longrightarrow>
   fault st (Get (''users/'' @ i)) = Some e \<Longrightarrow>
   Query_user i st =
     (Inl (Apollo (ApolloError e)), st\<lparr>calls := calls st @ [Get (''users/'' @ i)]\<rparr>)"
  by (simp add: Query_user_def store_get_def attempt_fail)



text \<open>
  Claim C5. For every well-formed id under which no user document is stored, when the
  store answers the lookup, \<^verbatim>\<open>Query.user\<close> returns the not-found value and throws
  nothing.
\<close>

theorem Query_user_not_found:
  assumes "map_of (docs st) (''users/'' @ i) = None"
    and "fault st (Get (''users/'' @ i)) = None"
    and "well_formed_id i"
  shows "fst (Query_user i st) = Inr (ErrorValue (ValidationError ''User ID not found''))
         \<and> (\<forall>x. fst (Query_user i st) \<noteq> Inl x)"
  using assms well_formed_id_path [of i] by (simp add: Query_user_ok)

theorem Query_user_not_found_witness:
  "map_of (docs scenario) (''users/'' @ ''missing'') = None
   \<and> fault scenario (Get (''users/'' @ ''missing'')) = None
   \<and> well_formed_id ''missing''
   \<and> fst (Query_user ''missing'' scenario) =
       Inr (ErrorValue (ValidationError ''User ID not found''))
   \<and> (\<forall>x. fst (Query_user ''missing'' scenario) \<noteq> Inl x)"
proof -
  have h1: "map_of (docs scenario) (''users/'' @ ''missing'') = None"
    by (simp add: scenario_def)
  have h2: "fault scenario (Get (''users/'' @ ''missing'')) = None"
    by (simp add: scenario_def healthy_def)
  have h3: "well_formed_id ''missing''"
    by (simp add: well_formed_id_def)
  from Query_user_not_found [OF h1 h2 h3] h1 h2 h3 show ?thesis by blast
qed

text \<open>
  Claim C6. \<^verbatim>\<open>Query.user\<close> has no failure channel of its own for a lookup that finds
  no user: an error object appears as the returned value, in the place of a user, exactly
  when the lookup is sent, the store answers it and finds no document, and it is then the
  validation error \<^verbatim>\<open>User ID not found\<close>; a validation error is never thrown.
\<close>

theorem Query_user_error_as_data:
  "(fst (Query_user i st) = Inr (ErrorValue err)
      \<longleftrightarrow> validate_document_path (''users/'' @ i) = None
          \<and> fault st (Get (''users/'' @ i)) = None
          \<and> map_of (docs st) (document_key (''users/'' @ i)) = None
          \<and> err = ValidationError ''User ID not found'')
   \<and> fst (Query_user i st) \<noteq> Inl (Apollo (ValidationError m))"
proof (cases "validate_document_path (''users/'' @ i)")
  case valid: None
  show ?thesis
  proof (cases "fault st (Get (''users/'' @ i))")
    case None
    with valid show ?thesis
      by (auto simp: Query_user_ok split: option.splits)
  next
    case (Some e)
    with valid show ?thesis
      by (simp add: Query_user_fail)
  qed
next
  case (Some e)
  then show ?thesis
    by (simp add: Query_user_refused)
qed

section \<open>\<^verbatim>\<open>Query.tweets\<close>\<close>

lemma Query_tweets_ok:
  "fault st (ScanAll ''tweets'') = None \<Longrightarrow>
   Query_tweets st = (Inr (tweets_of st), st\<lparr>calls := calls st @ [ScanAll ''tweets'']\<rparr>)"
  by (simp add: Query_tweets_def store_scanAll_def attempt_ok tweets_of_def)

lemma Query_tweets_fail:
  "fault st (ScanAll ''tweets'') = Some e \<Longrightarrow>
   Query_tweets st = (Inl (StoreError e), st\<lparr>calls := calls st @ [ScanAll ''tweets'']\<rparr>)"
  by (simp add: Query_tweets_def store_scanAll_def attempt_fail)

text \<open>
  Claim C8. On a store whose collection \<^verbatim>\<open>tweets\<close> is empty, when the store answers
  the scan, \<^verbatim>\<open>Query.tweets\<close> returns the empty list, not a failure.
\<close>

theorem Query_tweets_empty:
  assumes "tweets_of st = []"
    and "fault st (ScanAll ''tweets'') = None"
  shows "fst (Query_tweets st) = Inr []"
  using assms by (simp add: Query_tweets_ok)

theorem Query_tweets_empty_witness:
  "tweets_of no_tweets = [] \<and> fault no_tweets (ScanAll ''tweets'') = None
   \<and> fst (Query_tweets no_tweets) = Inr []"
proof -
  have h1: "tweets_of no_tweets = []"
    by (simp add: tweets_of_def no_tweets_def collection_def in_collection_def)
  have h2: "fault no_tweets (ScanAll ''tweets'') = None"
    by (simp add: no_tweets_def healthy_def)
  from Query_tweets_empty [OF h1 h2] h1 h2 show ?thesis by blast
qed

section \<open>Store failures\<close>

lemma User_tweets_refused:
  "refused (Query ''tweets'' ''userId'' (field user ''id'')) = Some e \<Longrightarrow>
   User_tweets user st = (Inl (Apollo (ApolloError e)), st)"
  by (simp add: User_tweets_def store_query_def attempt_refused)

lemma User_tweets_fail:
  "refused (Query ''tweets'' ''userId'' (field user ''id'')) = None \<Longrightarrow>
   fault st (Query ''tweets'' ''userId'' (field user ''id'')) = Some e \<Longrightarrow>
   User_tweets user st =
     (Inl (Apollo (ApolloError e)),
      st\<lparr>calls := calls st @ [Query ''tweets'' ''userId'' (field user ''id'')]\<rparr>)"
  by (simp add: User_tweets_def store_query_def attempt_fail)

text \<open>
  Claim C4. When its store call is sent and fails with error \<open>e\<close>, each of
  \<^verbatim>\<open>User.tweets\<close>, \<^verbatim>\<open>Tweets.user\<close> and \<^verbatim>\<open>Query.user\<close> throws \<open>e\<close> wrapped
  in an \<^verbatim>\<open>ApolloError\<close>, after that one call and no other (nothing is swallowed,
  nothing is retried); \<^verbatim>\<open>Query.tweets\<close> throws \<open>e\<close> as it is. The three wrap in
  the same way an error with which the client refuses the call. None of the three ever
  throws an unwrapped store error, so \<^verbatim>\<open>Query.tweets\<close> is the only one that does.
\<close>

theorem store_failure_wrapping:
  "(refused (Query ''tweets'' ''userId'' (field user ''id'')) = None
      \<and> fault st (Query ''tweets'' ''userId'' (field user ''id'')) = Some e \<longrightarrow>
      User_tweets user st =
        (Inl (Apollo (ApolloError e)),
         st\<lparr>calls := calls st @ [Query ''tweets'' ''userId'' (field user ''id'')]\<rparr>))
   \<and> (refused (Get (''users/'' @ to_string (field tweet ''userId''))) = None
      \<and> fault st (Get (''users/'' @ to_string (field tweet ''userId''))) = Some e \<longrightarrow>
      Tweets_user tweet st =
        (Inl (Apollo (ApolloError e)),
         st\<lparr>calls := calls st @ [Get (''users/'' @ to_string (field tweet ''userId''))]\<rparr>))
   \<and> (refused (Get (''users/'' @ i)) = None \<and> fault st (Get (''users/'' @ i)) = Some e \<longrightarrow>
      Query_user i st =
        (Inl (Apollo (ApolloError e)), st\<lparr>calls := calls st @ [Get (''users/'' @ i)]\<rparr>))
   \<and> (fault st (ScanAll ''tweets'') = Some e \<longrightarrow>
      Query_tweets st = (Inl (StoreError e), st\<lparr>calls := calls st @ [ScanAll ''tweets'']\<rparr>))
   \<and> (refused (Query ''tweets'' ''userId'' (field user ''id'')) = Some e \<longrightarrow>
      User_tweets user st = (Inl (Apollo (ApolloError e)), st))
   \<and> (refused (Get (''users/'' @ to_string (field tweet ''userId''))) = Some e \<longrightarrow>
      Tweets_user tweet st = (Inl (Apollo (ApolloError e)), st))
   \<and> (refused (Get (''users/'' @ i)) = Some e \<longrightarrow>
      Query_user i st = (Inl (Apollo (ApolloError e)), st))
   \<and> fst (User_tweets user st) \<noteq> Inl (StoreError e)
   \<and> fst (Tweets_user tweet st) \<noteq> Inl (StoreError e)
   \<and> fst (Query_user i st) \<noteq> Inl (StoreError e)"
proof -
  have a: "fst (User_tweets user st) \<noteq> Inl (StoreError e)"
    by (simp add: User_tweets_def store_query_def attempt_def split: option.splits)
  have b: "fst (Tweets_user tweet st) \<noteq> Inl (StoreError e)"
    by (simp add: Tweets_user_def store_get_def attempt_def split: option.splits)
  have c: "fst (Query_user i st) \<noteq> Inl (StoreError e)"
    by (simp add: Query_user_def store_get_def attempt_def split: option.splits)
  from a b c show ?thesis
    by (simp add: User_tweets_fail Tweets_user_fail Query_user_fail Query_tweets_fail
        User_tweets_refused Tweets_user_refused Query_user_refused)
qed

theorem store_failure_wrapping_witness:
  "refused (Query ''tweets'' ''userId'' (field u1 ''id'')) = None
   \<and> fault down (Query ''tweets'' ''userId'' (field u1 ''id'')) = Some ''UNAVAILABLE''
   \<and> refused (Get (''users/'' @ to_string (field t1 ''userId''))) = None
   \<and> fault down (Get (''users/'' @ to_string (field t1 ''userId''))) = Some ''UNAVAILABLE''
   \<and> refused (Get (''users/'' @ ''u1'')) = None
   \<and> fault down (Get (''users/'' @ ''u1'')) = Some ''UNAVAILABLE''
   \<and> fault down (ScanAll ''tweets'') = Some ''UNAVAILABLE''
   \<and> User_tweets u1 down =
        (Inl (Apollo (ApolloError ''UNAVAILABLE'')),
         down\<lparr>calls := calls down @ [Query ''tweets'' ''userId'' (field u1 ''id'')]\<rparr>)
   \<and> Tweets_user t1 down =
        (Inl (Apollo (ApolloError ''UNAVAILABLE'')),
         down\<lparr>calls := calls down @ [Get (''users/'' @ to_string (field t1 ''userId''))]\<rparr>)
   \<and> Query_user ''u1'' down =
        (Inl (Apollo (ApolloError ''UNAVAILABLE'')),
         down\<lparr>calls := calls down @ [Get (''users/'' @ ''u1'')]\<rparr>)
   \<and> Query_tweets down =
        (Inl (StoreError ''UNAVAILABLE''), down\<lparr>calls := calls down @ [ScanAll ''tweets'']\<rparr>)
   \<and> calls down = []
   \<and> refused (Get (''users/'' @ to_string (field t4 ''userId''))) =
        Some ''Argument documentPath must point to a document.''
   \<and> Tweets_user t4 down =
        (Inl (Apollo (ApolloError ''Argument documentPath must point to a document.'')), down)"
proof -
  have h: "fault down = unavailable" "calls down = []"
    by (simp_all add: down_def scenario_def)
  have r1: "refused (Query ''tweets'' ''userId'' (field u1 ''id'')) = None"
    by (simp add: field_def u1_def)
  have r2: "refused (Get (''users/'' @ to_string (field t1 ''userId''))) = None"
    by (simp add: field_def t1_def validate_document_path_def segments_def)
  have r3: "refused (Get (''users/'' @ ''u1'')) = None"
    by (simp add: validate_document_path_def segments_def)
  have r4: "refused (Get (''users/'' @ to_string (field t4 ''userId''))) =
      Some ''Argument documentPath must point to a document.''"
    by (simp add: field_def t4_def validate_document_path_def segments_def)
  have f: "\<And>c. fault down c = Some ''UNAVAILABLE''"
    by (simp add: h unavailable_def)
  from store_failure_wrapping [where st = down and user = u1 and tweet = t1
      and i = "''u1''" and e = "''UNAVAILABLE''"]
    store_failure_wrapping [where st = down and user = u1 and tweet = t4
      and i = "''u1''" and e = "''Argument documentPath must point to a document.''"]
    r1 r2 r3 r4 f h(2)
  show ?thesis by simp
qed

section \<open>The store after a resolver\<close>

lemma snd_User_tweets:
  "snd (User_tweets user st) =
     (if refused (Query ''tweets'' ''userId'' (field user ''id'')) = None
      then st\<lparr>calls := calls st @ [Query ''tweets'' ''userId'' (field user ''id'')]\<rparr>
      else st)"
  by (simp add: User_tweets_def store_query_def attempt_def split: option.splits)

lemma snd_Tweets_user:
  "snd (Tweets_user tweet st) =
     (if refused (Get (''users/'' @ to_string (field tweet ''userId''))) = None
      then st\<lparr>calls := calls st @ [Get (''users/'' @ to_string (field tweet ''userId''))]\<rparr>
      else st)"
  by (simp add: Tweets_user_def store_get_def attempt_def split: option.splits)

lemma snd_Query_user:
  "snd (Query_user i st) =
     (if refused (Get (''users/'' @ i)) = None
      then st\<lparr>calls := calls st @ [Get (''users/'' @ i)]\<rparr>
      else st)"
  by (simp add: Query_user_def store_get_def attempt_def split: option.splits)

lemma snd_Query_tweets:
  "snd (Query_tweets st) = st\<lparr>calls := calls st @ [ScanAll ''tweets'']\<rparr>"
  by (simp add: Query_tweets_def store_scanAll_def attempt_def split: option.splits)

text \<open>
  Claim C9. Every resolver is read-only: it issues one read (a lookup or a scan), or none
  when the client refuses the call, and no write, so the documents of the store after it
  are the documents before it, whether the call was refused, failed or answered.
\<close>

theorem resolvers_read_only:
  "docs (snd (Query_tweets st)) = docs st
   \<and> docs (snd (User_tweets user st)) = docs st
   \<and> docs (snd (Tweets_user tweet st)) = docs st
   \<and> docs (snd (Query_user i st)) = docs st
   \<and> calls (snd (Query_tweets st)) = calls st @ [ScanAll ''tweets'']
   \<and> calls (snd (User_tweets user st)) =
       calls st @ (if refused (Query ''tweets'' ''userId'' (field user ''id'')) = None
                   then [Query ''tweets'' ''userId'' (field user ''id'')] else [])
   \<and> calls (snd (Tweets_user tweet st)) =
       calls st @ (if refused (Get (''users/'' @ to_string (field tweet ''userId''))) = None
                   then [Get (''users/'' @ to_string (field tweet ''userId''))] else [])
   \<and> calls (snd (Query_user i st)) =
       calls st @ (if refused (Get (''users/'' @ i)) = None
                   then [Get (''users/'' @ i)] else [])"
  by (simp add: snd_Query_tweets snd_User_tweets snd_Tweets_user snd_Query_user)

section \<open>Two runs of a resolver\<close>




end
